theory Spec2Isabelle
  imports Complex_Main "HOL-Library.Word" "HOL-Library.Monad_Syntax"
begin

section \<open>Values crossing the coercion boundary\<close>

text \<open>
  The coercion functions of \<^verbatim>\<open>scalars.go\<close> take and return \<^verbatim>\<open>interface{}\<close>: a
  dynamically typed value on which they switch by type. The model is a datatype with one
  constructor for every type named in one of the type switches, a constructor for the nil
  interface (the "no value" signal) and constructors for what the switches do not name.

  Machine integers are words; \<^verbatim>\<open>int\<close> and \<^verbatim>\<open>uint\<close> are taken at 64 bits.
  A pointer is an option: \<open>None\<close> is the nil pointer, and dereferencing it is the
  run-time panic of Go.
\<close>

subsection \<open>Floating values\<close>

text \<open>
  A floating value is identified with what it denotes: a rational number, an infinity
  or NaN (the two zeros are one value, as they are for Go's \<^verbatim>\<open>==\<close>). Every
  \<^verbatim>\<open>float32\<close> is a \<^verbatim>\<open>float64\<close> and the widening \<^verbatim>\<open>float64(v)\<close> is exact, so both
  types share the carrier and the widening is the identity.
\<close>

datatype ieee = Finite rat | PosInf | NegInf | NaN

type_synonym float32 = ieee
type_synonym float64 = ieee

text \<open>The comparisons \<^verbatim>\<open><\<close> and \<^verbatim>\<open>!=\<close> of IEEE 754: every order test with NaN is false.\<close>

fun flt_less :: "float64 \<Rightarrow> float64 \<Rightarrow> bool" where
  "flt_less NaN _ = False"
| "flt_less _ NaN = False"
| "flt_less (Finite a) (Finite b) = (a < b)"
| "flt_less (Finite a) PosInf = True"
| "flt_less (Finite a) NegInf = False"
| "flt_less NegInf NegInf = False"
| "flt_less NegInf _ = True"
| "flt_less PosInf _ = False"

fun flt_nonzero :: "float64 \<Rightarrow> bool" where
  "flt_nonzero (Finite a) = (a \<noteq> 0)"
| "flt_nonzero _ = True"

text \<open>
  \<^verbatim>\<open>float64(n)\<close> of an integer rounds to 53 significant bits, ties to even.
\<close>

fun bit_length :: "nat \<Rightarrow> nat" where
  "bit_length n = (if n = 0 then 0 else Suc (bit_length (n div 2)))"

declare bit_length.simps [simp del]

definition round53 :: "nat \<Rightarrow> nat" where
  "round53 n =
     (if n < 2 ^ 53 then n
      else let k = bit_length n - 53;
               q = n div 2 ^ k;
               r = n mod 2 ^ k;
               h = 2 ^ (k - 1)
           in if h < r \<or> (r = h \<and> odd q) then (q + 1) * 2 ^ k else q * 2 ^ k)"

definition float64_of_nat :: "nat \<Rightarrow> float64" where
  "float64_of_nat n = Finite (of_nat (round53 n))"

definition float64_of_int :: "int \<Rightarrow> float64" where
  "float64_of_int x =
     (if x < 0 then Finite (- of_nat (round53 (nat (- x)))) else Finite (of_nat (round53 (nat x))))"

text \<open>
  \<^verbatim>\<open>int64(f)\<close> truncates toward zero. Where the truncated value is no \<^verbatim>\<open>int64\<close>
  (and for the infinities and NaN) Go leaves the result to the implementation: the
  parameter \<open>cv\<close> stands for what the platform returns there.
\<close>

definition trunc_rat :: "rat \<Rightarrow> int" where
  "trunc_rat q = (if 0 \<le> q then \<lfloor>q\<rfloor> else \<lceil>q\<rceil>)"

fun int64_of_float :: "(float64 \<Rightarrow> 64 word) \<Rightarrow> float64 \<Rightarrow> 64 word" where
  "int64_of_float cv (Finite q) =
     (if - (2 ^ 63) \<le> trunc_rat q \<and> trunc_rat q < 2 ^ 63 then word_of_int (trunc_rat q)
      else cv (Finite q))"
| "int64_of_float cv f = cv f"

subsection \<open>Timestamps and errors\<close>

text \<open>
  A \<^verbatim>\<open>time.Time\<close> is represented by its civil fields and the offset of its zone in
  seconds east of UTC.
\<close>

record Time =
  year :: int
  month :: nat
  day :: nat
  hour :: nat
  minute :: nat
  second :: nat
  nsec :: nat
  zone_offset :: int

text \<open>
  A value of type \<^verbatim>\<open>error\<close>: either made by \<^verbatim>\<open>errors.New\<close> or some other
  implementation, told apart by a tag; \<open>Error\<close> is its method \<^verbatim>\<open>Error()\<close>.
\<close>

datatype go_error = ErrorsNew string | OtherError nat string

fun Error :: "go_error \<Rightarrow> string" where
  "Error (ErrorsNew s) = s"
| "Error (OtherError _ s) = s"

subsection \<open>Dynamic values\<close>

datatype go_value =
    VNil
  | VBool bool | VBoolP "bool option"
  | VInt "64 word" | VIntP "64 word option"
  | VInt8 "8 word" | VInt8P "8 word option"
  | VInt16 "16 word" | VInt16P "16 word option"
  | VInt32 "32 word" | VInt32P "32 word option"
  | VInt64 "64 word" | VInt64P "64 word option"
  | VUint "64 word" | VUintP "64 word option"
  | VUint8 "8 word" | VUint8P "8 word option"
  | VUint16 "16 word" | VUint16P "16 word option"
  | VUint32 "32 word" | VUint32P "32 word option"
  | VUint64 "64 word" | VUint64P "64 word option"
  | VFloat32 float32 | VFloat32P "float32 option"
  | VFloat64 float64 | VFloat64P "float64 option"
  | VString string | VStringP "string option"
  | VBytes string
  | VTime Time | VTimeP "Time option"
  | VStringer string
  | VError go_error
  | VOther nat

text \<open>
  \<open>VBytes\<close> is a \<^verbatim>\<open>[]byte\<close>; \<open>VStringer s\<close> is a value of a type with a method
  \<^verbatim>\<open>String()\<close> that returns \<open>s\<close>; \<open>VOther\<close> stands for the values of all other
  types (structs, maps, named types), told apart by a tag.
\<close>

datatype panic = NilDereference

type_synonym 'a result = "panic + 'a"

definition deref :: "'a option \<Rightarrow> ('a \<Rightarrow> 'b result) \<Rightarrow> 'b result" where
  "deref p k = (case p of None \<Rightarrow> Inl NilDereference | Some x \<Rightarrow> k x)"

section \<open>The Int unit\<close>

definition MinInt32 :: int where "MinInt32 = - 2147483648"
definition MaxInt32 :: int where "MaxInt32 = 2147483647"

text \<open>Lines 127 to 135 of \<^verbatim>\<open>coerceInt\<close>: the two bound checks and the result.\<close>

definition coerceInt_bounds :: "float64 \<Rightarrow> 64 word \<Rightarrow> go_value" where
  "coerceInt_bounds r i =
     (if flt_less r (Finite (of_int MinInt32)) \<or> flt_less (Finite (of_int MaxInt32)) r then VNil
      else if sint i < MinInt32 \<or> MaxInt32 < sint i then VNil
      else VInt i)"

text \<open>
  The type switch of \<^verbatim>\<open>coerceInt\<close>. \<open>r\<close> and \<open>i\<close> start as zero; a case that
  does not assign \<open>r\<close> leaves it zero. \<open>pf\<close> is \<^verbatim>\<open>strconv.ParseFloat(s, 0)\<close>,
  \<open>None\<close> where it reports an error.
\<close>

definition coerceInt_string ::
  "(string \<Rightarrow> float64 option) \<Rightarrow> (float64 \<Rightarrow> 64 word) \<Rightarrow> string \<Rightarrow> go_value" where
  "coerceInt_string pf cv s =
     (case pf s of None \<Rightarrow> VNil
      | Some val \<Rightarrow> coerceInt_bounds val (int64_of_float cv val))"

fun coerceInt ::
  "(string \<Rightarrow> float64 option) \<Rightarrow> (float64 \<Rightarrow> 64 word) \<Rightarrow> go_value \<Rightarrow> go_value result" where
  "coerceInt pf cv (VBool v) = Inr (coerceInt_bounds (Finite 0) (if v then 1 else 0))"
| "coerceInt pf cv (VBoolP p) =
     deref p (\<lambda>v. Inr (coerceInt_bounds (Finite 0) (if v then 1 else 0)))"
| "coerceInt pf cv (VInt v) = Inr (coerceInt_bounds (Finite 0) v)"
| "coerceInt pf cv (VIntP p) = deref p (\<lambda>v. Inr (coerceInt_bounds (Finite 0) v))"
| "coerceInt pf cv (VInt8 v) = Inr (coerceInt_bounds (Finite 0) (scast v))"
| "coerceInt pf cv (VInt8P p) = deref p (\<lambda>v. Inr (coerceInt_bounds (Finite 0) (scast v)))"
| "coerceInt pf cv (VInt16 v) = Inr (coerceInt_bounds (Finite 0) (scast v))"
| "coerceInt pf cv (VInt16P p) = deref p (\<lambda>v. Inr (coerceInt_bounds (Finite 0) (scast v)))"
| "coerceInt pf cv (VInt32 v) = Inr (coerceInt_bounds (Finite 0) (scast v))"
| "coerceInt pf cv (VInt32P p) = deref p (\<lambda>v. Inr (coerceInt_bounds (Finite 0) (scast v)))"
| "coerceInt pf cv (VInt64 v) = Inr (coerceInt_bounds (Finite 0) v)"
| "coerceInt pf cv (VInt64P p) = deref p (\<lambda>v. Inr (coerceInt_bounds (Finite 0) v))"
| "coerceInt pf cv (VUint v) = Inr (coerceInt_bounds (float64_of_nat (unat v)) v)"
| "coerceInt pf cv (VUintP p) =
     deref p (\<lambda>v. Inr (coerceInt_bounds (float64_of_nat (unat v)) v))"
| "coerceInt pf cv (VUint8 v) = Inr (coerceInt_bounds (Finite 0) (ucast v))"
| "coerceInt pf cv (VUint8P p) = deref p (\<lambda>v. Inr (coerceInt_bounds (Finite 0) (ucast v)))"
| "coerceInt pf cv (VUint16 v) = Inr (coerceInt_bounds (Finite 0) (ucast v))"
| "coerceInt pf cv (VUint16P p) = deref p (\<lambda>v. Inr (coerceInt_bounds (Finite 0) (ucast v)))"
| "coerceInt pf cv (VUint32 v) = Inr (coerceInt_bounds (Finite 0) (ucast v))"
| "coerceInt pf cv (VUint32P p) = deref p (\<lambda>v. Inr (coerceInt_bounds (Finite 0) (ucast v)))"
| "coerceInt pf cv (VUint64 v) = Inr (coerceInt_bounds (float64_of_nat (unat v)) v)"
| "coerceInt pf cv (VUint64P p) =
     deref p (\<lambda>v. Inr (coerceInt_bounds (float64_of_nat (unat v)) v))"
| "coerceInt pf cv (VFloat32 v) = Inr (coerceInt_bounds v (int64_of_float cv v))"
| "coerceInt pf cv (VFloat32P p) =
     deref p (\<lambda>v. Inr (coerceInt_bounds v (int64_of_float cv v)))"
| "coerceInt pf cv (VFloat64 v) = Inr (coerceInt_bounds v (int64_of_float cv v))"
| "coerceInt pf cv (VFloat64P p) =
     deref p (\<lambda>v. Inr (coerceInt_bounds v (int64_of_float cv v)))"
| "coerceInt pf cv (VString s) = Inr (coerceInt_string pf cv s)"
| "coerceInt pf cv (VStringP p) = deref p (\<lambda>s. Inr (coerceInt_string pf cv s))"
| "coerceInt pf cv _ = Inr VNil"


section \<open>The Float unit\<close>

text \<open>
  \<^verbatim>\<open>coerceFloat\<close> has no default case: for a type outside the switch \<open>f\<close> keeps its
  zero value and is returned. The two \<^verbatim>\<open>float32\<close> cases return the input itself.
\<close>

definition coerceFloat_string :: "(string \<Rightarrow> float64 option) \<Rightarrow> string \<Rightarrow> go_value" where
  "coerceFloat_string pf s = (case pf s of None \<Rightarrow> VNil | Some val \<Rightarrow> VFloat64 val)"

fun coerceFloat :: "(string \<Rightarrow> float64 option) \<Rightarrow> go_value \<Rightarrow> go_value result" where
  "coerceFloat pf (VBool v) = Inr (VFloat64 (if v then Finite 1 else Finite 0))"
| "coerceFloat pf (VBoolP p) = deref p (\<lambda>v. Inr (VFloat64 (if v then Finite 1 else Finite 0)))"
| "coerceFloat pf (VInt v) = Inr (VFloat64 (float64_of_int (sint v)))"
| "coerceFloat pf (VIntP p) = deref p (\<lambda>v. Inr (VFloat64 (float64_of_int (sint v))))"
| "coerceFloat pf (VInt8 v) = Inr (VFloat64 (float64_of_int (sint v)))"
| "coerceFloat pf (VInt8P p) = deref p (\<lambda>v. Inr (VFloat64 (float64_of_int (sint v))))"
| "coerceFloat pf (VInt16 v) = Inr (VFloat64 (float64_of_int (sint v)))"
| "coerceFloat pf (VInt16P p) = deref p (\<lambda>v. Inr (VFloat64 (float64_of_int (sint v))))"
| "coerceFloat pf (VInt32 v) = Inr (VFloat64 (float64_of_int (sint v)))"
| "coerceFloat pf (VInt32P p) = deref p (\<lambda>v. Inr (VFloat64 (float64_of_int (sint v))))"
| "coerceFloat pf (VInt64 v) = Inr (VFloat64 (float64_of_int (sint v)))"
| "coerceFloat pf (VInt64P p) = deref p (\<lambda>v. Inr (VFloat64 (float64_of_int (sint v))))"
| "coerceFloat pf (VUint v) = Inr (VFloat64 (float64_of_nat (unat v)))"
| "coerceFloat pf (VUintP p) = deref p (\<lambda>v. Inr (VFloat64 (float64_of_nat (unat v))))"
| "coerceFloat pf (VUint8 v) = Inr (VFloat64 (float64_of_nat (unat v)))"
| "coerceFloat pf (VUint8P p) = deref p (\<lambda>v. Inr (VFloat64 (float64_of_nat (unat v))))"
| "coerceFloat pf (VUint16 v) = Inr (VFloat64 (float64_of_nat (unat v)))"
| "coerceFloat pf (VUint16P p) = deref p (\<lambda>v. Inr (VFloat64 (float64_of_nat (unat v))))"
| "coerceFloat pf (VUint32 v) = Inr (VFloat64 (float64_of_nat (unat v)))"
| "coerceFloat pf (VUint32P p) = deref p (\<lambda>v. Inr (VFloat64 (float64_of_nat (unat v))))"
| "coerceFloat pf (VUint64 v) = Inr (VFloat64 (float64_of_nat (unat v)))"
| "coerceFloat pf (VUint64P p) = deref p (\<lambda>v. Inr (VFloat64 (float64_of_nat (unat v))))"
| "coerceFloat pf (VFloat32 v) = Inr (VFloat32 v)"
| "coerceFloat pf (VFloat32P p) = deref p (\<lambda>v. Inr (VFloat32 v))"
| "coerceFloat pf (VFloat64 v) = Inr (VFloat64 v)"
| "coerceFloat pf (VFloat64P p) = deref p (\<lambda>v. Inr (VFloat64 v))"
| "coerceFloat pf (VString s) = Inr (coerceFloat_string pf s)"
| "coerceFloat pf (VStringP p) = deref p (\<lambda>s. Inr (coerceFloat_string pf s))"
| "coerceFloat pf _ = Inr (VFloat64 (Finite 0))"

section \<open>The String unit\<close>

text \<open>
  After the two string cases \<^verbatim>\<open>coerceString\<close> asks whether the value is a
  \<^verbatim>\<open>fmt.Stringer\<close>; of the values modelled here those are \<open>VStringer\<close> and the
  timestamps (\<open>ts\<close> is the method \<^verbatim>\<open>String()\<close> of \<^verbatim>\<open>time.Time\<close>; called through
  a nil \<^verbatim>\<open>*time.Time\<close> it panics). Everything else goes to
  \<^verbatim>\<open>fmt.Sprintf("%v", value)\<close>, the parameter \<open>sp\<close>.
\<close>

fun coerceString ::
  "(go_value \<Rightarrow> string) \<Rightarrow> (Time \<Rightarrow> string) \<Rightarrow> go_value \<Rightarrow> go_value result" where
  "coerceString sp ts (VString v) = Inr (VString v)"
| "coerceString sp ts (VStringP p) = deref p (\<lambda>v. Inr (VString v))"
| "coerceString sp ts (VStringer s) = Inr (VString s)"
| "coerceString sp ts (VTime t) = Inr (VString (ts t))"
| "coerceString sp ts (VTimeP p) = deref p (\<lambda>t. Inr (VString (ts t)))"
| "coerceString sp ts v = Inr (VString (sp v))"

section \<open>The Boolean unit\<close>

function (sequential) coerceBool :: "go_value \<Rightarrow> go_value result" where
  "coerceBool (VBool v) = Inr (VBool v)"
| "coerceBool (VBoolP p) = deref p (\<lambda>v. Inr (VBool v))"
| "coerceBool (VString v) = (if v = [] \<or> v = ''false'' then Inr (VBool False) else Inr (VBool True))"
| "coerceBool (VStringP None) = Inl NilDereference"
| "coerceBool (VStringP (Some v)) = coerceBool (VString v)"
| "coerceBool (VFloat64 v) = (if flt_nonzero v then Inr (VBool True) else Inr (VBool False))"
| "coerceBool (VFloat64P None) = Inl NilDereference"
| "coerceBool (VFloat64P (Some v)) = coerceBool (VFloat64 v)"
| "coerceBool (VFloat32 v) = (if flt_nonzero v then Inr (VBool True) else Inr (VBool False))"
| "coerceBool (VFloat32P None) = Inl NilDereference"
| "coerceBool (VFloat32P (Some v)) = coerceBool (VFloat32 v)"
| "coerceBool (VInt v) = (if v \<noteq> 0 then Inr (VBool True) else Inr (VBool False))"
| "coerceBool (VIntP None) = Inl NilDereference"
| "coerceBool (VIntP (Some v)) = coerceBool (VInt v)"
| "coerceBool _ = Inr (VBool False)"
  by pat_completeness auto

definition is_pointer :: "go_value \<Rightarrow> bool" where
  "is_pointer v =
     (case v of VStringP _ \<Rightarrow> True | VFloat64P _ \<Rightarrow> True | VFloat32P _ \<Rightarrow> True
      | VIntP _ \<Rightarrow> True | VTimeP _ \<Rightarrow> True | _ \<Rightarrow> False)"

termination coerceBool
  by (relation "measure (\<lambda>v. if is_pointer v then 1 else 0)") (auto simp: is_pointer_def)

section \<open>The DateTime unit\<close>

text \<open>
  \<open>mt\<close> is \<^verbatim>\<open>time.Time.MarshalText\<close> and \<open>um\<close> is \<^verbatim>\<open>time.Time.UnmarshalText\<close>,
  \<open>None\<close> where they report an error. A \<^verbatim>\<open>[]byte\<close> and a string hold the same bytes.
\<close>

function (sequential) serializeDateTime ::
  "(Time \<Rightarrow> string option) \<Rightarrow> go_value \<Rightarrow> go_value result" where
  "serializeDateTime mt (VTime v) =
     (case mt v of None \<Rightarrow> Inr VNil | Some buff \<Rightarrow> Inr (VString buff))"
| "serializeDateTime mt (VTimeP None) = Inl NilDereference"
| "serializeDateTime mt (VTimeP (Some v)) = serializeDateTime mt (VTime v)"
| "serializeDateTime mt _ = Inr VNil"
  by pat_completeness auto

termination serializeDateTime
  by (relation "measure (\<lambda>(mt, v). if is_pointer v then 1 else 0)") (auto simp: is_pointer_def)

function (sequential) unserializeDateTime ::
  "(string \<Rightarrow> Time option) \<Rightarrow> go_value \<Rightarrow> go_value result" where
  "unserializeDateTime um (VBytes v) =
     (case um v of None \<Rightarrow> Inr VNil | Some t \<Rightarrow> Inr (VTime t))"
| "unserializeDateTime um (VString v) = unserializeDateTime um (VBytes v)"
| "unserializeDateTime um (VStringP None) = Inl NilDereference"
| "unserializeDateTime um (VStringP (Some v)) = unserializeDateTime um (VBytes v)"
| "unserializeDateTime um _ = Inr VNil"
  by pat_completeness auto

termination unserializeDateTime
  by (relation "measure (\<lambda>(um, v). case v of VBytes _ \<Rightarrow> 0 | _ \<Rightarrow> 1)") auto


section \<open>Literal nodes\<close>

text \<open>From \<^verbatim>\<open>language/ast/location.go\<close>.\<close>

record Source =
  Body :: string
  SourceName :: string

record Location =
  Start :: int
  End :: int
  Source :: "Source option"

definition NewLocation :: "Location \<Rightarrow> Location" where
  "NewLocation loc = \<lparr>Start = Start loc, End = End loc, Source = Source loc\<rparr>"

text \<open>
  Modelled from the spec: the literal nodes of package \<^verbatim>\<open>ast\<close> (the file that declares
  them is not among the sources). The spec has "literal node variants tagged by kind
  (integer literal, float literal, string literal, boolean literal), each exposing its raw
  source text and, indirectly, a Location"; the remaining kinds of value node are the
  nodes that every \<^verbatim>\<open>ParseLiteral\<close> below rejects.
\<close>

datatype ast_value =
    IntValue "Location option" string
  | FloatValue "Location option" string
  | StringValue "Location option" string
  | BooleanValue "Location option" bool
  | EnumValue "Location option" string
  | Variable "Location option" string
  | ListValue "Location option" "ast_value list"
  | ObjectValue "Location option" "(string \<times> ast_value) list"

text \<open>
  The six \<^verbatim>\<open>ParseLiteral\<close> closures. \<open>atoi\<close> is \<^verbatim>\<open>strconv.Atoi\<close> and \<open>pf32\<close> is
  \<^verbatim>\<open>strconv.ParseFloat(s, 32)\<close>, \<open>None\<close> where they report an error.
\<close>

fun Int_ParseLiteral :: "(string \<Rightarrow> 64 word option) \<Rightarrow> ast_value \<Rightarrow> go_value" where
  "Int_ParseLiteral atoi (IntValue loc text) =
     (case atoi text of Some intValue \<Rightarrow> VInt intValue | None \<Rightarrow> VNil)"
| "Int_ParseLiteral atoi _ = VNil"

fun Float_ParseLiteral :: "(string \<Rightarrow> float64 option) \<Rightarrow> ast_value \<Rightarrow> go_value" where
  "Float_ParseLiteral pf32 (FloatValue loc text) =
     (case pf32 text of Some floatValue \<Rightarrow> VFloat64 floatValue | None \<Rightarrow> VNil)"
| "Float_ParseLiteral pf32 (IntValue loc text) =
     (case pf32 text of Some floatValue \<Rightarrow> VFloat64 floatValue | None \<Rightarrow> VNil)"
| "Float_ParseLiteral pf32 _ = VNil"

fun String_ParseLiteral :: "ast_value \<Rightarrow> go_value" where
  "String_ParseLiteral (StringValue loc text) = VString text"
| "String_ParseLiteral _ = VNil"

fun Boolean_ParseLiteral :: "ast_value \<Rightarrow> go_value" where
  "Boolean_ParseLiteral (BooleanValue loc b) = VBool b"
| "Boolean_ParseLiteral _ = VNil"

fun ID_ParseLiteral :: "ast_value \<Rightarrow> go_value" where
  "ID_ParseLiteral (IntValue loc text) = VString text"
| "ID_ParseLiteral (StringValue loc text) = VString text"
| "ID_ParseLiteral _ = VNil"

fun DateTime_ParseLiteral :: "ast_value \<Rightarrow> go_value" where
  "DateTime_ParseLiteral (StringValue loc text) = VString text"
| "DateTime_ParseLiteral _ = VNil"

section \<open>The scalar definitions\<close>

record ScalarConfig =
  Name :: string
  Description :: string
  Serialize :: "go_value \<Rightarrow> go_value result"
  ParseValue :: "go_value \<Rightarrow> go_value result"
  ParseLiteral :: "ast_value \<Rightarrow> go_value"

text \<open>
  Modelled from the spec: \<^verbatim>\<open>NewScalar\<close> (its file is not among the sources). The spec's
  Scalar Definition is "{Name, Description, Serialize, ParseValue, ParseLiteral}", "created
  once at schema-definition time; immutable thereafter": the definition holds the
  configuration it was made from.
\<close>

definition NewScalar :: "ScalarConfig \<Rightarrow> ScalarConfig" where
  "NewScalar config = config"

definition Int_scalar ::
  "(string \<Rightarrow> float64 option) \<Rightarrow> (float64 \<Rightarrow> 64 word) \<Rightarrow> (string \<Rightarrow> 64 word option)
     \<Rightarrow> ScalarConfig" where
  "Int_scalar pf cv atoi = NewScalar \<lparr>
     Name = ''Int'',
     Description = ''The `Int` scalar type represents non-fractional signed whole numeric '' @
       ''values. Int can represent values between -(2^31) and 2^31 - 1. '',
     Serialize = coerceInt pf cv,
     ParseValue = coerceInt pf cv,
     ParseLiteral = Int_ParseLiteral atoi\<rparr>"

definition Float_scalar ::
  "(string \<Rightarrow> float64 option) \<Rightarrow> (string \<Rightarrow> float64 option) \<Rightarrow> ScalarConfig" where
  "Float_scalar pf pf32 = NewScalar \<lparr>
     Name = ''Float'',
     Description = ''The `Float` scalar type represents signed double-precision fractional '' @
       ''values as specified by '' @
       ''[IEEE 754](http://en.wikipedia.org/wiki/IEEE_floating_point). '',
     Serialize = coerceFloat pf,
     ParseValue = coerceFloat pf,
     ParseLiteral = Float_ParseLiteral pf32\<rparr>"

definition String_scalar :: "(go_value \<Rightarrow> string) \<Rightarrow> (Time \<Rightarrow> string) \<Rightarrow> ScalarConfig" where
  "String_scalar sp ts = NewScalar \<lparr>
     Name = ''String'',
     Description = ''The `String` scalar type represents textual data, represented as UTF-8 '' @
       ''character sequences. The String type is most often used by GraphQL to '' @
       ''represent free-form human-readable text.'',
     Serialize = coerceString sp ts,
     ParseValue = coerceString sp ts,
     ParseLiteral = String_ParseLiteral\<rparr>"

definition Boolean_scalar :: ScalarConfig where
  "Boolean_scalar = NewScalar \<lparr>
     Name = ''Boolean'',
     Description = ''The `Boolean` scalar type represents `true` or `false`.'',
     Serialize = coerceBool,
     ParseValue = coerceBool,
     ParseLiteral = Boolean_ParseLiteral\<rparr>"

definition ID_scalar :: "(go_value \<Rightarrow> string) \<Rightarrow> (Time \<Rightarrow> string) \<Rightarrow> ScalarConfig" where
  "ID_scalar sp ts = NewScalar \<lparr>
     Name = ''ID'',
     Description = ''The `ID` scalar type represents a unique identifier, often used to '' @
       ''refetch an object or as key for a cache. The ID type appears in a JSON '' @
       ''response as a String; however, it is not intended to be human-readable. '' @
       ''When expected as an input type, any string (such as `'' @ [CHR 0x22] @ ''4'' @
       [CHR 0x22] @ ''`) or integer '' @
       ''(such as `4`) input value will be accepted as an ID.'',
     Serialize = coerceString sp ts,
     ParseValue = coerceString sp ts,
     ParseLiteral = ID_ParseLiteral\<rparr>"

definition DateTime_scalar ::
  "(Time \<Rightarrow> string option) \<Rightarrow> (string \<Rightarrow> Time option) \<Rightarrow> ScalarConfig" where
  "DateTime_scalar mt um = NewScalar \<lparr>
     Name = ''DateTime'',
     Description = ''The `DateTime` scalar type represents a DateTime.'' @
       '' The DateTime is serialized as an RFC 3339 quoted string'',
     Serialize = serializeDateTime mt,
     ParseValue = unserializeDateTime um,
     ParseLiteral = DateTime_ParseLiteral\<rparr>"

section \<open>Located errors\<close>

record 'n gqlerror =
  Message :: string
  Nodes :: "'n list"
  Stack :: string
  OriginalError :: "go_error option"

text \<open>
  Modelled from the spec: \<^verbatim>\<open>gqlerrors.NewError\<close> (package \<^verbatim>\<open>gqlerrors\<close> is not among
  the sources). The spec's Located Error is "{Message: string, Nodes: ordered sequence of
  syntax nodes, Stack: string, OriginalError: optional underlying error}" and "carries the
  message, the node sequence (for position reporting), the stack string, and the underlying
  failure (possibly absent)": the constructor stores these four arguments. The source and
  the positions it is also given are no part of the spec's record.
\<close>

definition NewError ::
  "string \<Rightarrow> 'n list \<Rightarrow> string \<Rightarrow> Source option \<Rightarrow> int list \<Rightarrow> go_error option \<Rightarrow> 'n gqlerror" where
  "NewError message nodes stack source positions origError =
     \<lparr>Message = message, Nodes = nodes, Stack = stack, OriginalError = origError\<rparr>"

text \<open>
  \<^verbatim>\<open>NewLocatedError\<close> of \<^verbatim>\<open>located.go\<close>: two type assertions in sequence, each
  overwriting \<open>message\<close> and \<open>origError\<close> where it succeeds. Of the values modelled
  only \<open>VError\<close> is an \<^verbatim>\<open>error\<close> and only \<open>VString\<close> is a \<^verbatim>\<open>string\<close>.
\<close>

definition NewLocatedError :: "go_value \<Rightarrow> 'n list \<Rightarrow> 'n gqlerror" where
  "NewLocatedError err nodes =
     (let (message, origError) = (''An unknown error occurred.'', None);
          (message, origError) =
             (case err of VError e \<Rightarrow> (Error e, Some e) | _ \<Rightarrow> (message, origError));
          (message, origError) =
             (case err of VString s \<Rightarrow> (s, Some (ErrorsNew s)) | _ \<Rightarrow> (message, origError));
          stack = message
      in NewError message nodes stack None [] origError)"

section \<open>Inputs and kinds of the specification\<close>

text \<open>
  The integer that an input denotes, for the inputs the specification calls an integer
  "supplied either as an integer or as a floating value": a value of one of the ten integer
  types, a floating value that is integral, or a pointer to one of them. All other inputs
  denote no integer.
\<close>

fun int_input :: "go_value \<Rightarrow> int option" where
  "int_input (VInt v) = Some (sint v)"
| "int_input (VIntP (Some v)) = Some (sint v)"
| "int_input (VInt8 v) = Some (sint v)"
| "int_input (VInt8P (Some v)) = Some (sint v)"
| "int_input (VInt16 v) = Some (sint v)"
| "int_input (VInt16P (Some v)) = Some (sint v)"
| "int_input (VInt32 v) = Some (sint v)"
| "int_input (VInt32P (Some v)) = Some (sint v)"
| "int_input (VInt64 v) = Some (sint v)"
| "int_input (VInt64P (Some v)) = Some (sint v)"
| "int_input (VUint v) = Some (uint v)"
| "int_input (VUintP (Some v)) = Some (uint v)"
| "int_input (VUint8 v) = Some (uint v)"
| "int_input (VUint8P (Some v)) = Some (uint v)"
| "int_input (VUint16 v) = Some (uint v)"
| "int_input (VUint16P (Some v)) = Some (uint v)"
| "int_input (VUint32 v) = Some (uint v)"
| "int_input (VUint32P (Some v)) = Some (uint v)"
| "int_input (VUint64 v) = Some (uint v)"
| "int_input (VUint64P (Some v)) = Some (uint v)"
| "int_input (VFloat32 (Finite q)) = (if of_int \<lfloor>q\<rfloor> = q then Some \<lfloor>q\<rfloor> else None)"
| "int_input (VFloat32P (Some (Finite q))) = (if of_int \<lfloor>q\<rfloor> = q then Some \<lfloor>q\<rfloor> else None)"
| "int_input (VFloat64 (Finite q)) = (if of_int \<lfloor>q\<rfloor> = q then Some \<lfloor>q\<rfloor> else None)"
| "int_input (VFloat64P (Some (Finite q))) = (if of_int \<lfloor>q\<rfloor> = q then Some \<lfloor>q\<rfloor> else None)"
| "int_input _ = None"

text \<open>
  The kinds a unit supports are the types named by its type switch. \<^verbatim>\<open>coerceInt\<close> and
  \<^verbatim>\<open>coerceFloat\<close> name the same twenty-eight types, \<^verbatim>\<open>coerceBool\<close> names ten, and the
  two functions of the DateTime unit name two and three.
\<close>

fun numeric_switch_kind :: "go_value \<Rightarrow> bool" where
  "numeric_switch_kind (VBool _) = True"
| "numeric_switch_kind (VBoolP _) = True"
| "numeric_switch_kind (VInt _) = True"
| "numeric_switch_kind (VIntP _) = True"
| "numeric_switch_kind (VInt8 _) = True"
| "numeric_switch_kind (VInt8P _) = True"
| "numeric_switch_kind (VInt16 _) = True"
| "numeric_switch_kind (VInt16P _) = True"
| "numeric_switch_kind (VInt32 _) = True"
| "numeric_switch_kind (VInt32P _) = True"
| "numeric_switch_kind (VInt64 _) = True"
| "numeric_switch_kind (VInt64P _) = True"
| "numeric_switch_kind (VUint _) = True"
| "numeric_switch_kind (VUintP _) = True"
| "numeric_switch_kind (VUint8 _) = True"
| "numeric_switch_kind (VUint8P _) = True"
| "numeric_switch_kind (VUint16 _) = True"
| "numeric_switch_kind (VUint16P _) = True"
| "numeric_switch_kind (VUint32 _) = True"
| "numeric_switch_kind (VUint32P _) = True"
| "numeric_switch_kind (VUint64 _) = True"
| "numeric_switch_kind (VUint64P _) = True"
| "numeric_switch_kind (VFloat32 _) = True"
| "numeric_switch_kind (VFloat32P _) = True"
| "numeric_switch_kind (VFloat64 _) = True"
| "numeric_switch_kind (VFloat64P _) = True"
| "numeric_switch_kind (VString _) = True"
| "numeric_switch_kind (VStringP _) = True"
| "numeric_switch_kind _ = False"

fun Boolean_switch_kind :: "go_value \<Rightarrow> bool" where
  "Boolean_switch_kind (VBool _) = True"
| "Boolean_switch_kind (VBoolP _) = True"
| "Boolean_switch_kind (VString _) = True"
| "Boolean_switch_kind (VStringP _) = True"
| "Boolean_switch_kind (VFloat64 _) = True"
| "Boolean_switch_kind (VFloat64P _) = True"
| "Boolean_switch_kind (VFloat32 _) = True"
| "Boolean_switch_kind (VFloat32P _) = True"
| "Boolean_switch_kind (VInt _) = True"
| "Boolean_switch_kind (VIntP _) = True"
| "Boolean_switch_kind _ = False"

fun serialize_switch_kind :: "go_value \<Rightarrow> bool" where
  "serialize_switch_kind (VTime _) = True"
| "serialize_switch_kind (VTimeP _) = True"
| "serialize_switch_kind _ = False"

fun unserialize_switch_kind :: "go_value \<Rightarrow> bool" where
  "unserialize_switch_kind (VBytes _) = True"
| "unserialize_switch_kind (VString _) = True"
| "unserialize_switch_kind (VStringP _) = True"
| "unserialize_switch_kind _ = False"

text \<open>
  The inputs that \<^verbatim>\<open>coerceString\<close> does not hand to \<^verbatim>\<open>fmt.Sprintf\<close>: the two
  string types of its switch and the values with a method \<^verbatim>\<open>String()\<close>.
\<close>

fun string_or_Stringer :: "go_value \<Rightarrow> bool" where
  "string_or_Stringer (VString _) = True"
| "string_or_Stringer (VStringP _) = True"
| "string_or_Stringer (VStringer _) = True"
| "string_or_Stringer (VTime _) = True"
| "string_or_Stringer (VTimeP _) = True"
| "string_or_Stringer _ = False"

section \<open>Properties\<close>

lemma Int_scalar_sel [simp]:
  "Serialize (Int_scalar pf cv atoi) = coerceInt pf cv"
  "ParseValue (Int_scalar pf cv atoi) = coerceInt pf cv"
  "ParseLiteral (Int_scalar pf cv atoi) = Int_ParseLiteral atoi"
  by (simp_all add: Int_scalar_def NewScalar_def)

lemma Float_scalar_sel [simp]:
  "Serialize (Float_scalar pf pf32) = coerceFloat pf"
  "ParseValue (Float_scalar pf pf32) = coerceFloat pf"
  "ParseLiteral (Float_scalar pf pf32) = Float_ParseLiteral pf32"
  by (simp_all add: Float_scalar_def NewScalar_def)

lemma String_scalar_sel [simp]:
  "Serialize (String_scalar sp ts) = coerceString sp ts"
  "ParseValue (String_scalar sp ts) = coerceString sp ts"
  "ParseLiteral (String_scalar sp ts) = String_ParseLiteral"
  by (simp_all add: String_scalar_def NewScalar_def)

lemma Boolean_scalar_sel [simp]:
  "Serialize Boolean_scalar = coerceBool"
  "ParseValue Boolean_scalar = coerceBool"
  "ParseLiteral Boolean_scalar = Boolean_ParseLiteral"
  by (simp_all add: Boolean_scalar_def NewScalar_def)

lemma ID_scalar_sel [simp]:
  "Serialize (ID_scalar sp ts) = coerceString sp ts"
  "ParseValue (ID_scalar sp ts) = coerceString sp ts"
  "ParseLiteral (ID_scalar sp ts) = ID_ParseLiteral"
  by (simp_all add: ID_scalar_def NewScalar_def)

lemma DateTime_scalar_sel [simp]:
  "Serialize (DateTime_scalar mt um) = serializeDateTime mt"
  "ParseValue (DateTime_scalar mt um) = unserializeDateTime um"
  "ParseLiteral (DateTime_scalar mt um) = DateTime_ParseLiteral"
  by (simp_all add: DateTime_scalar_def NewScalar_def)

lemma serialize_unserialize_differ: "serializeDateTime mt \<noteq> unserializeDateTime um"
proof
  assume "serializeDateTime mt = unserializeDateTime um"
  then have "serializeDateTime mt (VTimeP None) = unserializeDateTime um (VTimeP None)"
    by simp
  then show False
    by simp
qed

text \<open>
  C10: for each of the Int, Float, String, Boolean and ID scalar definitions
  \<^verbatim>\<open>Serialize\<close> and \<^verbatim>\<open>ParseValue\<close> are the same function, so the two return identical
  results on every input; for DateTime the two are distinct functions (they differ on a nil
  \<^verbatim>\<open>*time.Time\<close>, whatever the time package does).
\<close>

theorem Serialize_same_as_ParseValue:
  "Serialize (Int_scalar pf cv atoi) = ParseValue (Int_scalar pf cv atoi) \<and>
   Serialize (Float_scalar pf pf32) = ParseValue (Float_scalar pf pf32) \<and>
   Serialize (String_scalar sp ts) = ParseValue (String_scalar sp ts) \<and>
   Serialize Boolean_scalar = ParseValue Boolean_scalar \<and>
   Serialize (ID_scalar sp ts) = ParseValue (ID_scalar sp ts) \<and>
   Serialize (DateTime_scalar mt um) \<noteq> ParseValue (DateTime_scalar mt um)"
  by (simp add: serialize_unserialize_differ)

text \<open>
  C7: \<^verbatim>\<open>NewLocatedError(err, nodes)\<close> returns an error whose nodes are the given
  nodes and whose stack is its message. For an \<^verbatim>\<open>error\<close> the message is the error's
  message and the underlying failure is that error; for a string the message is the string
  and the underlying failure is a new error carrying it; for anything else the message is
  "An unknown error occurred." and there is no underlying failure.
\<close>

theorem NewLocatedError_fields:
  "Nodes (NewLocatedError err nodes) = nodes \<and>
   Stack (NewLocatedError err nodes) = Message (NewLocatedError err nodes) \<and>
   Message (NewLocatedError (VError e) nodes) = Error e \<and>
   OriginalError (NewLocatedError (VError e) nodes) = Some e \<and>
   Message (NewLocatedError (VString s) nodes) = s \<and>
   OriginalError (NewLocatedError (VString s) nodes) = Some (ErrorsNew s) \<and>
   ((\<forall>e. err \<noteq> VError e) \<and> (\<forall>s. err \<noteq> VString s) \<longrightarrow>
      Message (NewLocatedError err nodes) = ''An unknown error occurred.'' \<and>
      OriginalError (NewLocatedError err nodes) = None)"
  by (cases err) (simp_all add: NewLocatedError_def NewError_def)

theorem NewLocatedError_fields_witness:
  "Nodes (NewLocatedError (VString ''boom'') [1 :: nat, 2]) = [1, 2] \<and>
   Message (NewLocatedError (VString ''boom'') [1 :: nat, 2]) = ''boom'' \<and>
   Stack (NewLocatedError (VInt 42) ([] :: nat list)) = ''An unknown error occurred.'' \<and>
   Message (NewLocatedError (VInt 42) ([] :: nat list)) = ''An unknown error occurred.'' \<and>
   OriginalError (NewLocatedError (VInt 42) ([] :: nat list)) = None"
  using NewLocatedError_fields [of "VInt 42" "[] :: nat list"]
    NewLocatedError_fields [of "VString ''boom''" "[1 :: nat, 2]" _ "''boom''"]
  by simp

text \<open>
  C5: \<^verbatim>\<open>DateTime.ParseLiteral\<close> returns the raw text of every string literal,
  unchanged and whatever the timestamp parser \<open>um\<close> would say of it; every other kind of
  node gives nil.
\<close>

theorem DateTime_ParseLiteral_raw_text:
  "ParseLiteral (DateTime_scalar mt um) (StringValue loc s) = VString s \<and>
   ((\<forall>loc s. node \<noteq> StringValue loc s) \<longrightarrow>
      ParseLiteral (DateTime_scalar mt um) node = VNil)"
  by (cases node) simp_all

theorem DateTime_ParseLiteral_raw_text_witness:
  "ParseLiteral (DateTime_scalar (\<lambda>t. None) (\<lambda>s. None))
     (StringValue None ''not-a-real-timestamp'') = VString ''not-a-real-timestamp'' \<and>
   ParseLiteral (DateTime_scalar (\<lambda>t. None) (\<lambda>s. None))
     (IntValue None ''2021'') = VNil"
  using DateTime_ParseLiteral_raw_text
    [of "\<lambda>t. None" "\<lambda>s. None" None "''not-a-real-timestamp''" "IntValue None ''2021''"]
  by simp

text \<open>
  C4: \<^verbatim>\<open>Int.ParseLiteral\<close> accepts integer literals only. It parses the text of the
  literal with \<^verbatim>\<open>strconv.Atoi\<close> and returns the parsed integer as it is, whether or not it
  lies in the 32-bit range; a parse error and every other kind of node give nil.
\<close>

theorem Int_ParseLiteral_no_bound_check:
  "(atoi s = Some n \<longrightarrow> ParseLiteral (Int_scalar pf cv atoi) (IntValue loc s) = VInt n) \<and>
   (atoi s = None \<longrightarrow> ParseLiteral (Int_scalar pf cv atoi) (IntValue loc s) = VNil) \<and>
   ((\<forall>loc s. node \<noteq> IntValue loc s) \<longrightarrow>
      ParseLiteral (Int_scalar pf cv atoi) node = VNil)"
  by (cases node) simp_all

theorem Int_ParseLiteral_no_bound_check_witness:
  "ParseLiteral (Int_scalar (\<lambda>s. None) (\<lambda>f. 0) (\<lambda>s. if s = ''2147483648'' then Some 2147483648 else None))
     (IntValue None ''2147483648'') = VInt 2147483648 \<and>
   ParseLiteral (Int_scalar (\<lambda>s. None) (\<lambda>f. 0) (\<lambda>s. if s = ''2147483648'' then Some 2147483648 else None))
     (IntValue None ''12x'') = VNil \<and>
   ParseLiteral (Int_scalar (\<lambda>s. None) (\<lambda>f. 0) (\<lambda>s. if s = ''2147483648'' then Some 2147483648 else None))
     (StringValue None ''2147483648'') = VNil"
  using Int_ParseLiteral_no_bound_check
    [of "\<lambda>s. if s = ''2147483648'' then Some 2147483648 else None" "''2147483648''"
      2147483648 "\<lambda>s. None" "\<lambda>f. 0" None "StringValue None ''2147483648''"]
    Int_ParseLiteral_no_bound_check
    [of "\<lambda>s. if s = ''2147483648'' then Some 2147483648 else None" "''12x''"
      0 "\<lambda>s. None" "\<lambda>f. 0" None "StringValue None ''2147483648''"]
  by simp

subsection \<open>Results of the coercions\<close>

lemma coerceInt_result:
  assumes "coerceInt pf cv x = Inr v"
  shows "v = VNil \<or> (\<exists>i. v = VInt i \<and> MinInt32 \<le> sint i \<and> sint i \<le> MaxInt32)"
  using assms
  by (cases x)
    (auto simp: deref_def coerceInt_bounds_def coerceInt_string_def
      split: option.splits if_splits)

lemma coerceInt_bounds_in_range:
  "MinInt32 \<le> sint i \<Longrightarrow> sint i \<le> MaxInt32 \<Longrightarrow> coerceInt_bounds (Finite 0) i = VInt i"
  by (simp add: coerceInt_bounds_def MinInt32_def MaxInt32_def)

lemma coerceFloat_result:
  assumes "coerceFloat pf x = Inr v"
  shows "v = VNil \<or> (\<exists>f. v = VFloat64 f) \<or> (\<exists>f. v = VFloat32 f)"
  using assms
  by (cases x) (auto simp: deref_def coerceFloat_string_def split: option.splits if_splits)

lemma coerceString_result:
  assumes "coerceString sp ts x = Inr v"
  shows "\<exists>s. v = VString s"
  using assms by (cases x) (auto simp: deref_def split: option.splits)

lemma coerceBool_result:
  assumes "coerceBool x = Inr v"
  shows "\<exists>b. v = VBool b"
  using assms
  by (cases x rule: coerceBool.cases) (auto simp: deref_def split: option.splits if_splits)

text \<open>
  C9: for each of the Int, Float, String, Boolean and ID units and every input on which
  \<^verbatim>\<open>ParseValue\<close> returns a value other than nil, \<^verbatim>\<open>Serialize\<close> applied to that
  value returns it unchanged.
\<close>

theorem Serialize_ParseValue_stable:
  assumes "U \<in> {Int_scalar pf cv atoi, Float_scalar pf pf32, String_scalar sp ts,
                  Boolean_scalar, ID_scalar sp ts}"
    and "ParseValue U x = Inr v" and "v \<noteq> VNil"
  shows "Serialize U v = Inr v"
proof -
  consider "U = Int_scalar pf cv atoi" | "U = Float_scalar pf pf32" | "U = String_scalar sp ts"
    | "U = Boolean_scalar" | "U = ID_scalar sp ts"
    using assms(1) by blast
  then show ?thesis
  proof cases
    case 1
    with assms coerceInt_result [of pf cv x v] show ?thesis
      by (auto simp: coerceInt_bounds_in_range)
  next
    case 2
    with assms coerceFloat_result [of pf x v] show ?thesis
      by auto
  next
    case 3
    with assms coerceString_result [of sp ts x v] show ?thesis
      by auto
  next
    case 4
    with assms coerceBool_result [of x v] show ?thesis
      by auto
  next
    case 5
    with assms coerceString_result [of sp ts x v] show ?thesis
      by auto
  qed
qed

theorem Serialize_ParseValue_stable_witness:
  "Serialize (Int_scalar (\<lambda>s. None) (\<lambda>f. 0) (\<lambda>s. None)) (VInt 7) = Inr (VInt 7) \<and>
   Serialize Boolean_scalar (VBool True) = Inr (VBool True)"
  using Serialize_ParseValue_stable
    [of "Int_scalar (\<lambda>s. None) (\<lambda>f. 0) (\<lambda>s. None)" "\<lambda>s. None" "\<lambda>f. 0" "\<lambda>s. None"
      "\<lambda>s. None" "\<lambda>v. []" "\<lambda>t. []" "VInt8 7" "VInt 7"]
    Serialize_ParseValue_stable
    [of Boolean_scalar "\<lambda>s. None" "\<lambda>f. 0" "\<lambda>s. None"
      "\<lambda>s. None" "\<lambda>v. []" "\<lambda>t. []" "VString ''yes''" "VBool True"]
  by (simp add: coerceInt_bounds_def MinInt32_def MaxInt32_def)

text \<open>
  C2, at the input \<^verbatim>\<open>int64(5)\<close>: \<^verbatim>\<open>Boolean.ParseValue\<close> returns false for this
  nonzero number, because the type switch of \<^verbatim>\<open>coerceBool\<close> names \<^verbatim>\<open>int\<close> but not
  \<^verbatim>\<open>int64\<close>; the same number as an \<^verbatim>\<open>int\<close> gives true.
\<close>

theorem coerceBool_int64_nonzero:
  "ParseValue Boolean_scalar (VInt64 5) = Inr (VBool False) \<and>
   ParseValue Boolean_scalar (VInt 5) = Inr (VBool True)"
  by simp

text \<open>
  C3, as amended: for every input of a kind outside its type switch \<^verbatim>\<open>Float.ParseValue\<close>
  returns 0.0, and for a string that does not parse it returns nil. Of the other units, Int
  and DateTime return nil for the kinds outside their switches, but Boolean returns false:
  Float is not the only unit whose result for an unsupported kind is not nil.
\<close>

theorem unsupported_kind_results:
  "(\<not> numeric_switch_kind v \<longrightarrow>
      ParseValue (Float_scalar pf pf32) v = Inr (VFloat64 (Finite 0)) \<and>
      ParseValue (Int_scalar pf cv atoi) v = Inr VNil) \<and>
   (pf s = None \<longrightarrow> ParseValue (Float_scalar pf pf32) (VString s) = Inr VNil) \<and>
   (\<not> Boolean_switch_kind v \<longrightarrow> ParseValue Boolean_scalar v = Inr (VBool False)) \<and>
   (\<not> unserialize_switch_kind v \<longrightarrow> ParseValue (DateTime_scalar mt um) v = Inr VNil) \<and>
   (\<not> serialize_switch_kind v \<longrightarrow> Serialize (DateTime_scalar mt um) v = Inr VNil)"
  by (cases v) (simp_all add: coerceFloat_string_def)

theorem unsupported_kind_results_witness:
  "ParseValue (Float_scalar (\<lambda>s. None) (\<lambda>s. None)) (VBytes ''x'') = Inr (VFloat64 (Finite 0)) \<and>
   ParseValue (Int_scalar (\<lambda>s. None) (\<lambda>f. 0) (\<lambda>s. None)) (VBytes ''x'') = Inr VNil \<and>
   ParseValue (Float_scalar (\<lambda>s. None) (\<lambda>s. None)) (VString ''abc'') = Inr VNil \<and>
   ParseValue Boolean_scalar (VBytes ''x'') = Inr (VBool False) \<and>
   ParseValue (DateTime_scalar (\<lambda>t. None) (\<lambda>s. None)) (VInt 1) = Inr VNil \<and>
   Serialize (DateTime_scalar (\<lambda>t. None) (\<lambda>s. None)) (VBytes ''x'') = Inr VNil"
  using unsupported_kind_results
    [of "VBytes ''x''" "\<lambda>s. None" "\<lambda>s. None" "\<lambda>f. 0" "\<lambda>s. None" "''abc''"
      "\<lambda>t. None" "\<lambda>s. None"]
    unsupported_kind_results
    [of "VInt 1" "\<lambda>s. None" "\<lambda>s. None" "\<lambda>f. 0" "\<lambda>s. None" "''abc''"
      "\<lambda>t. None" "\<lambda>s. None"]
  by simp

theorem Boolean_unsupported_kind_not_nil:
  "\<not> Boolean_switch_kind (VBytes ''x'') \<and>
   ParseValue Boolean_scalar (VBytes ''x'') = Inr (VBool False) \<and>
   ParseValue Boolean_scalar (VBytes ''x'') \<noteq> Inr VNil"
  by simp

text \<open>
  C8, as amended: \<^verbatim>\<open>Serialize\<close> and \<^verbatim>\<open>ParseValue\<close> of String and of ID are one
  function, which returns a string, and never nil, for every input other than a nil
  \<^verbatim>\<open>*string\<close> and a nil pointer whose \<^verbatim>\<open>String()\<close> method dereferences it. A string
  and the string behind a pointer pass through unchanged; a value with a \<^verbatim>\<open>String()\<close>
  method gives what the method returns (for a timestamp, what \<^verbatim>\<open>time.Time.String\<close>
  returns); every other input, such as 123, gives its rendering by
  \<^verbatim>\<open>fmt.Sprintf("%v", value)\<close>.
\<close>

theorem coerceString_total_but_nil_pointers:
  "(v \<noteq> VStringP None \<and> v \<noteq> VTimeP None \<longrightarrow>
      (\<exists>s. ParseValue (String_scalar sp ts) v = Inr (VString s))) \<and>
   (\<not> string_or_Stringer v \<longrightarrow> ParseValue (String_scalar sp ts) v = Inr (VString (sp v))) \<and>
   ParseValue (String_scalar sp ts) (VString s) = Inr (VString s) \<and>
   ParseValue (String_scalar sp ts) (VStringP (Some s)) = Inr (VString s) \<and>
   ParseValue (String_scalar sp ts) (VStringer s) = Inr (VString s) \<and>
   ParseValue (String_scalar sp ts) (VTime t) = Inr (VString (ts t)) \<and>
   ParseValue (String_scalar sp ts) (VTimeP (Some t)) = Inr (VString (ts t)) \<and>
   ParseValue (String_scalar sp ts) (VInt 123) = Inr (VString (sp (VInt 123))) \<and>
   Serialize (String_scalar sp ts) v = ParseValue (String_scalar sp ts) v \<and>
   ParseValue (ID_scalar sp ts) v = ParseValue (String_scalar sp ts) v \<and>
   Serialize (ID_scalar sp ts) v = ParseValue (String_scalar sp ts) v"
  by (cases v) (auto simp: deref_def split: option.splits)

theorem coerceString_total_but_nil_pointers_witness:
  "(\<exists>s. ParseValue (String_scalar (\<lambda>v. ''123'') (\<lambda>t. ''2021'')) (VInt 123) = Inr (VString s)) \<and>
   ParseValue (String_scalar (\<lambda>v. ''123'') (\<lambda>t. ''2021'')) (VInt 123) = Inr (VString ''123'') \<and>
   Serialize (ID_scalar (\<lambda>v. ''123'') (\<lambda>t. ''2021'')) (VInt 123) = Inr (VString ''123'')"
  using coerceString_total_but_nil_pointers
    [of "VInt 123" "\<lambda>v. ''123''" "\<lambda>t. ''2021''" "''abc''"]
  by simp

theorem coerceString_nil_pointer_panics:
  "ParseValue (String_scalar (\<lambda>v. []) (\<lambda>t. [])) (VStringP None) = Inl NilDereference \<and>
   Serialize (ID_scalar (\<lambda>v. []) (\<lambda>t. [])) (VStringP None) = Inl NilDereference"
  by (simp add: deref_def)



subsection \<open>The range checks of the Int unit\<close>

lemma round53_small: "n < 2 ^ 53 \<Longrightarrow> round53 n = n"
  by (simp add: round53_def)

lemma bit_length_lower: "0 < n \<Longrightarrow> 2 ^ (bit_length n - 1) \<le> n"
proof (induction n rule: bit_length.induct)
  case (1 n)
  show ?case
  proof (cases "n div 2 = 0")
    case True
    with 1(2) have "n = 1" by (simp add: div_eq_0_iff)
    then show ?thesis by (simp add: bit_length.simps)
  next
    case False
    with 1 have "2 ^ (bit_length (n div 2) - 1) \<le> n div 2" by simp
    moreover from False have "0 < bit_length (n div 2)"
      by (subst bit_length.simps) simp
    ultimately have "2 ^ bit_length (n div 2) \<le> 2 * (n div 2)"
      by (cases "bit_length (n div 2)") simp_all
    also have "\<dots> \<le> n" by simp
    finally show ?thesis using 1(2) by (subst bit_length.simps) simp
  qed
qed

lemma round53_large:
  assumes "2 ^ 53 \<le> n"
  shows "2 ^ 52 \<le> round53 n"
proof -
  define k where "k = bit_length n - 53"
  define q where "q = n div 2 ^ k"
  have n0: "0 < n" using assms by (simp add: less_le_trans [of 0 "2 ^ 53"])
  have "2 ^ 52 \<le> q"
  proof (cases "k = 0")
    case True
    then show ?thesis using assms by (simp add: q_def)
  next
    case False
    then have "bit_length n - 1 = 52 + k" by (simp add: k_def)
    with bit_length_lower [OF n0] have "(2::nat) ^ 52 * 2 ^ k \<le> n"
      by (simp add: power_add)
    then show ?thesis
      by (simp add: q_def less_eq_div_iff_mult_less_eq)
  qed
  then have "2 ^ 52 \<le> q * 2 ^ k"
    by (metis mult.right_neutral mult_le_mono one_le_numeral one_le_power)
  moreover have "q * 2 ^ k \<le> (q + 1) * 2 ^ k" by simp
  moreover have "round53 n = q * 2 ^ k \<or> round53 n = (q + 1) * 2 ^ k"
    using assms by (simp add: round53_def Let_def k_def q_def)
  ultimately show ?thesis by auto
qed

lemma sint_word64_of_int:
  "- (2 ^ 63) \<le> x \<Longrightarrow> x < 2 ^ 63 \<Longrightarrow> sint (word_of_int x :: 64 word) = x"
  by (simp add: sint_sbintrunc' signed_take_bit_int_eq_self)

lemma coerceInt_bounds_zero:
  "coerceInt_bounds (Finite 0) i =
     (if MinInt32 \<le> sint i \<and> sint i \<le> MaxInt32 then VInt i else VNil)"
  by (auto simp: coerceInt_bounds_def MinInt32_def MaxInt32_def)

lemma sint_scast_64:
  fixes v :: "'a::len word"
  assumes "LENGTH('a) \<le> 64"
  shows "sint (scast v :: 64 word) = sint v"
  using assms by (simp add: sint_up_scast is_up)

lemma sint_ucast_64:
  fixes v :: "'a::len word"
  assumes "LENGTH('a) < 64"
  shows "sint (ucast v :: 64 word) = uint v"
proof -
  have "uint v < 2 ^ LENGTH('a)" by simp
  also have "(2::int) ^ LENGTH('a) \<le> 2 ^ 63"
    using assms by (intro power_increasing) simp_all
  finally have "uint v < 2 ^ 63" .
  moreover have "- (2 ^ 63) \<le> uint v"
    by (rule order_trans [of _ 0]) simp_all
  ultimately have "sint (word_of_int (uint v) :: 64 word) = uint v"
    by (rule sint_word64_of_int [rotated])
  then show ?thesis by simp
qed

lemma MinInt32_le_uint: "MinInt32 \<le> uint w"
  by (rule order_trans [of _ 0]) (simp_all add: MinInt32_def)

lemma uint_less_of_unat_less:
  fixes v :: "64 word"
  assumes "unat v < 2 ^ 53"
  shows "uint v < 2 ^ 53"
proof -
  from assms have "int (unat v) < int (2 ^ 53)"
    by (simp only: of_nat_less_iff)
  then show ?thesis
    by simp
qed

lemma uint_ge_of_unat_ge:
  fixes v :: "64 word"
  assumes "2 ^ 53 \<le> unat v"
  shows "2 ^ 53 \<le> uint v"
proof -
  from assms have "int (2 ^ 53) \<le> int (unat v)"
    by (simp only: of_nat_le_iff)
  then show ?thesis
    by simp
qed

lemma sint_eq_uint_small:
  fixes v :: "64 word"
  assumes "uint v < 2 ^ 63"
  shows "sint v = uint v"
proof -
  have "- (2 ^ 63) \<le> uint v"
    by (rule order_trans [of _ 0]) simp_all
  then have "sint (word_of_int (uint v) :: 64 word) = uint v"
    using assms by (rule sint_word64_of_int)
  then show ?thesis by simp
qed

lemma flt_less_of_int:
  "flt_less (Finite (of_int a)) (Finite (of_int b)) = (a < b)"
  by simp

lemma coerceInt_bounds_of_int:
  "coerceInt_bounds (Finite (of_int y)) i =
     (if y < MinInt32 \<or> MaxInt32 < y then VNil
      else if sint i < MinInt32 \<or> MaxInt32 < sint i then VNil
      else VInt i)"
  unfolding coerceInt_bounds_def flt_less_of_int ..

lemma coerceInt_bounds_unsigned:
  fixes v :: "64 word"
  shows "coerceInt_bounds (float64_of_nat (unat v)) v =
           (if uint v \<le> MaxInt32 then VInt v else VNil)"
proof (cases "unat v < 2 ^ 53")
  case True
  then have "uint v < 2 ^ 53"
    by (rule uint_less_of_unat_less)
  then have "uint v < 2 ^ 63"
    by simp
  then have s: "sint v = uint v"
    by (rule sint_eq_uint_small)
  have "float64_of_nat (unat v) = Finite (of_int (uint v))"
    using True by (simp add: float64_of_nat_def round53_small)
  then have "coerceInt_bounds (float64_of_nat (unat v)) v =
      (if uint v < MinInt32 \<or> MaxInt32 < uint v then VNil
       else if sint v < MinInt32 \<or> MaxInt32 < sint v then VNil
       else VInt v)"
    by (simp only: coerceInt_bounds_of_int)
  moreover have "\<not> uint v < MinInt32"
    using MinInt32_le_uint [of v] by simp
  ultimately show ?thesis
    by (simp add: s)
next
  case False
  then have ge: "2 ^ 53 \<le> unat v" by simp
  then have "2 ^ 52 \<le> round53 (unat v)" by (rule round53_large)
  then have "int (2 ^ 52) \<le> int (round53 (unat v))"
    by (simp only: of_nat_le_iff)
  then have "MaxInt32 < int (round53 (unat v))"
    by (simp add: MaxInt32_def)
  moreover have "float64_of_nat (unat v) = Finite (of_int (int (round53 (unat v))))"
    by (simp add: float64_of_nat_def)
  ultimately have "coerceInt_bounds (float64_of_nat (unat v)) v = VNil"
    by (simp only: coerceInt_bounds_of_int) simp
  moreover from ge have "2 ^ 53 \<le> uint v"
    by (rule uint_ge_of_unat_ge)
  then have "\<not> uint v \<le> MaxInt32"
    by (simp add: MaxInt32_def)
  ultimately show ?thesis
    by simp
qed

lemma coerceInt_bounds_float:
  "coerceInt_bounds (Finite (of_int x)) (int64_of_float cv (Finite (of_int x))) =
     (if MinInt32 \<le> x \<and> x \<le> MaxInt32 then VInt (word_of_int x) else VNil)"
proof (cases "MinInt32 \<le> x \<and> x \<le> MaxInt32")
  case True
  then have r: "- (2 ^ 63) \<le> x" "x < 2 ^ 63"
    by (simp_all add: MinInt32_def MaxInt32_def)
  then have "int64_of_float cv (Finite (of_int x)) = word_of_int x"
    by (simp add: trunc_rat_def)
  moreover from r have "sint (word_of_int x :: 64 word) = x"
    by (rule sint_word64_of_int)
  ultimately show ?thesis
    using True by (simp only: coerceInt_bounds_of_int) auto
next
  case False
  then show ?thesis
    by (simp only: coerceInt_bounds_of_int) auto
qed

text \<open>
  C1: an input that denotes an integer \<open>x\<close>, through any of the integer types, a
  floating type or a non-nil pointer to one of them, is returned by \<^verbatim>\<open>Int.ParseValue\<close>
  and by \<^verbatim>\<open>Int.Serialize\<close> as the \<^verbatim>\<open>int\<close> \<open>x\<close> when \<open>x\<close> lies in
  \<open>[-2^31, 2^31-1]\<close>, and as nil when it lies outside.
\<close>

theorem Int_ParseValue_int32_range:
  assumes "int_input v = Some x"
  shows "ParseValue (Int_scalar pf cv atoi) v =
           Inr (if MinInt32 \<le> x \<and> x \<le> MaxInt32 then VInt (word_of_int x) else VNil) \<and>
         Serialize (Int_scalar pf cv atoi) v =
           Inr (if MinInt32 \<le> x \<and> x \<le> MaxInt32 then VInt (word_of_int x) else VNil)"
proof -
  have "coerceInt pf cv v =
          Inr (if MinInt32 \<le> x \<and> x \<le> MaxInt32 then VInt (word_of_int x) else VNil)"
    using assms
  proof (cases v rule: int_input.cases)
  qed (auto simp: deref_def coerceInt_bounds_zero coerceInt_bounds_unsigned
        sint_scast_64 sint_ucast_64 coerceInt_bounds_float MinInt32_le_uint
        simp del: int64_of_float.simps split: if_splits)
  then show ?thesis by simp
qed

theorem Int_ParseValue_int32_range_witness:
  "ParseValue (Int_scalar (\<lambda>s. None) (\<lambda>f. 0) (\<lambda>s. None)) (VInt32 7) = Inr (VInt 7) \<and>
   Serialize (Int_scalar (\<lambda>s. None) (\<lambda>f. 0) (\<lambda>s. None)) (VInt32 7) = Inr (VInt 7) \<and>
   ParseValue (Int_scalar (\<lambda>s. None) (\<lambda>f. 0) (\<lambda>s. None)) (VInt64 2147483648) = Inr VNil \<and>
   ParseValue (Int_scalar (\<lambda>s. None) (\<lambda>f. 0) (\<lambda>s. None)) (VFloat64 (Finite 3000000000))
     = Inr VNil \<and>
   ParseValue (Int_scalar (\<lambda>s. None) (\<lambda>f. 0) (\<lambda>s. None)) (VUint64 18446744073709551615)
     = Inr VNil"
  using Int_ParseValue_int32_range
      [of "VInt32 7" 7 "\<lambda>s. None" "\<lambda>f. 0" "\<lambda>s. None"]
    Int_ParseValue_int32_range
      [of "VInt64 2147483648" 2147483648 "\<lambda>s. None" "\<lambda>f. 0" "\<lambda>s. None"]
    Int_ParseValue_int32_range
      [of "VFloat64 (Finite 3000000000)" 3000000000 "\<lambda>s. None" "\<lambda>f. 0" "\<lambda>s. None"]
    Int_ParseValue_int32_range
      [of "VUint64 18446744073709551615" 18446744073709551615
        "\<lambda>s. None" "\<lambda>f. 0" "\<lambda>s. None"]
  by (simp add: MinInt32_def MaxInt32_def)

end
